theory Spec2Isabelle
  imports Main "HOL-Library.Sublist"
begin

section \<open>Python values used by the pipeline\<close>

text \<open>
  The values that \<^verbatim>\<open>json.loads\<close> produces and \<^verbatim>\<open>json.dump\<close> accepts. A Python
  \<^verbatim>\<open>dict\<close> is an association list in insertion order, looked up with \<open>map_of\<close>;
  the lists built by the parser have one entry per key. A float is kept as mantissa and
  binary exponent; no definition below computes with it.
\<close>

datatype json =
    JNull
  | JBool bool
  | JInt int
  | JFloat int int
  | JString string
  | JArray "json list"
  | JObject "(string \<times> json) list"

text \<open>The exceptions that the modelled code can raise or catch.\<close>

datatype exn =
    KeyError string
  | TypeError string
  | Exception string

text \<open>Sequencing of statements that may raise: the first exception ends the block.\<close>

definition bind_exn :: "exn + 'a \<Rightarrow> ('a \<Rightarrow> exn + 'b) \<Rightarrow> exn + 'b" where
  "bind_exn m f = (case m of Inl e \<Rightarrow> Inl e | Inr x \<Rightarrow> f x)"

subsection \<open>Strings\<close>

text \<open>
  \<^verbatim>\<open>str.lower()\<close>. Characters of the model are single bytes; only the ASCII letters
  are mapped, which is all that the test for the word \<^verbatim>\<open>table\<close> and the extension
  table of \<^verbatim>\<open>config.py\<close> can observe.
\<close>

definition lower_char :: "char \<Rightarrow> char" where
  "lower_char c =
     (let n = (of_char c :: nat) in if 65 \<le> n \<and> n \<le> 90 then char_of (n + 32) else c)"

definition lower :: "string \<Rightarrow> string" where
  "lower s = map lower_char s"

text \<open>\<^verbatim>\<open>sub in s\<close> for strings: \<open>sub\<close> occurs in \<open>s\<close> as a contiguous block.\<close>

fun py_in :: "string \<Rightarrow> string \<Rightarrow> bool" where
  "py_in sub [] = (sub = [])"
| "py_in sub (c # cs) = (prefix sub (c # cs) \<or> py_in sub cs)"

text \<open>\<^verbatim>\<open>s.find(c)\<close> and \<^verbatim>\<open>s.rfind(c)\<close> for a one-character needle: \<open>-1\<close> when absent.\<close>

fun py_find :: "string \<Rightarrow> char \<Rightarrow> int" where
  "py_find [] c = -1"
| "py_find (x # xs) c =
     (if x = c then 0 else (let r = py_find xs c in if r < 0 then -1 else r + 1))"

definition py_rfind :: "string \<Rightarrow> char \<Rightarrow> int" where
  "py_rfind s c =
     (let r = py_find (rev s) c in if r < 0 then -1 else int (length s) - 1 - r)"

text \<open>
  \<^verbatim>\<open>xs[a:b]\<close>: a negative bound counts from the end, and both bounds are clamped
  to the sequence.
\<close>

definition py_bound :: "int \<Rightarrow> nat \<Rightarrow> nat" where
  "py_bound i n = (if i < 0 then nat (max 0 (i + int n)) else min (nat i) n)"

definition py_slice :: "'a list \<Rightarrow> int \<Rightarrow> int \<Rightarrow> 'a list" where
  "py_slice xs a b =
     (let lo = py_bound a (length xs); hi = py_bound b (length xs)
      in take (hi - lo) (drop lo xs))"

section \<open>Model Gateway: \<^verbatim>\<open>utils/llm_client.py\<close>\<close>

datatype prompt_type = text_extraction | table_extraction | document_analysis

text \<open>A filesystem path is the list of its components (\<^verbatim>\<open>pathlib\<close>'s parts).\<close>

type_synonym path = "string list"

text \<open>
  What the statements \<^verbatim>\<open>encode_image\<close>, \<^verbatim>\<open>requests.post\<close>, \<^verbatim>\<open>raise_for_status\<close>
  and \<^verbatim>\<open>response.json()\<close> of \<^verbatim>\<open>process_image\<close> give for one image and one prompt:
  either one of them raises (\<open>Raised\<close> carries \<^verbatim>\<open>str(e)\<close>), or the body arrives and
  \<open>Responded\<close> carries its \<^verbatim>\<open>response\<close> field, \<open>None\<close> when the body has no such
  field. The field, when present, is text, as the backend's interface promises.
\<close>

datatype backend_reply = Raised string | Responded "string option"

text \<open>
  The dictionary returned by \<^verbatim>\<open>process_image\<close>. A field holding \<open>None\<close> is a key
  that the dictionary does not have.
\<close>

record model_response =
  success :: bool
  data :: "json option"
  raw_response :: "string option"
  error :: "string option"

text \<open>
  What \<^verbatim>\<open>json.loads\<close> does with a string: it returns the parsed value, or raises
  \<^verbatim>\<open>json.JSONDecodeError\<close>, or raises another exception (\<^verbatim>\<open>RecursionError\<close> on
  nesting that is too deep, \<^verbatim>\<open>ValueError\<close> on an integer literal beyond the digit
  limit), given with its message.
\<close>

datatype loads_result = Parsed json | JSONDecodeError | OtherError string

text \<open>The collaborators of the gateway: the backend and \<^verbatim>\<open>json.loads\<close>.\<close>

record gateway =
  backend :: "path \<Rightarrow> prompt_type \<Rightarrow> backend_reply"
  json_loads :: "string \<Rightarrow> loads_result"

text \<open>
  The inner handler catches \<^verbatim>\<open>json.JSONDecodeError\<close> only; any other exception of
  the parser reaches the outer handler, like an exception of the request itself.
\<close>

definition process_image :: "gateway \<Rightarrow> path \<Rightarrow> prompt_type \<Rightarrow> model_response" where
  "process_image G image_path kind =
     (case backend G image_path kind of
        Raised msg \<Rightarrow>
          \<lparr>success = False, data = None, raw_response = None, error = Some msg\<rparr>
      | Responded resp \<Rightarrow>
          (let text_content = (case resp of None \<Rightarrow> [] | Some t \<Rightarrow> t) in
           if py_in ''{'' text_content \<and> py_in ''}'' text_content then
             (let json_start = py_find text_content CHR ''{'';
                  json_end = py_rfind text_content CHR ''}'' + 1;
                  json_str = py_slice text_content json_start json_end
              in case json_loads G json_str of
                   Parsed parsed_data \<Rightarrow>
                     \<lparr>success = True, data = Some parsed_data,
                      raw_response = Some text_content, error = None\<rparr>
                 | JSONDecodeError \<Rightarrow>
                     \<lparr>success = True,
                      data = Some (JObject [(''text'', JString text_content)]),
                      raw_response = Some text_content, error = None\<rparr>
                 | OtherError msg \<Rightarrow>
                     \<lparr>success = False, data = None, raw_response = None,
                      error = Some msg\<rparr>)
           else
             \<lparr>success = True, data = Some (JObject [(''text'', JString text_content)]),
              raw_response = Some text_content, error = None\<rparr>))"

text \<open>
  The three entry points used by the document processor. Each call is appended to a log
  of the requests sent to the backend, so that a theorem can say which calls a page
  caused; the log has no counterpart in the source.
\<close>

type_synonym call = "path \<times> prompt_type"

definition analyze_document_type ::
  "gateway \<Rightarrow> path \<Rightarrow> call list \<Rightarrow> model_response \<times> call list" where
  "analyze_document_type G image_path log =
     (process_image G image_path document_analysis, log @ [(image_path, document_analysis)])"

definition extract_text ::
  "gateway \<Rightarrow> path \<Rightarrow> call list \<Rightarrow> model_response \<times> call list" where
  "extract_text G image_path log =
     (process_image G image_path text_extraction, log @ [(image_path, text_extraction)])"

definition extract_table ::
  "gateway \<Rightarrow> path \<Rightarrow> call list \<Rightarrow> model_response \<times> call list" where
  "extract_table G image_path log =
     (process_image G image_path table_extraction, log @ [(image_path, table_extraction)])"

section \<open>Page Rasterizer: \<^verbatim>\<open>utils/pdf_processor.py\<close>\<close>

text \<open>\<^verbatim>\<open>str(n)\<close> for a natural number, and the format \<^verbatim>\<open>{n:03d}\<close>.\<close>

fun py_str_nat :: "nat \<Rightarrow> string" where
  "py_str_nat n =
     (if n < 10 then [char_of (48 + n)]
      else py_str_nat (n div 10) @ [char_of (48 + n mod 10)])"

declare py_str_nat.simps [simp del]

definition format_03d :: "nat \<Rightarrow> string" where
  "format_03d n = replicate (3 - length (py_str_nat n)) CHR ''0'' @ py_str_nat n"

text \<open>\<^verbatim>\<open>range(start, stop, step)\<close> for a positive step.\<close>

definition py_range :: "nat \<Rightarrow> nat \<Rightarrow> nat \<Rightarrow> nat list" where
  "py_range start stop step =
     map (\<lambda>k. start + k * step) [0..<(stop - start + step - 1) div step]"

text \<open>
  A rendered page is opaque. The collaborators of the rasterizer are
  \<^verbatim>\<open>pdf2image.convert_from_path\<close>, \<^verbatim>\<open>image.save\<close> (\<open>Some e\<close> when it raises),
  \<^verbatim>\<open>docx.Document\<close> followed by the texts of its paragraphs, and the blank page
  made by \<^verbatim>\<open>Image.new\<close>.
\<close>

type_synonym image = string

record pdf_processor =
  convert_from_path :: "path \<Rightarrow> exn + image list"
  image_save :: "image \<Rightarrow> path \<Rightarrow> exn option"
  docx_Document :: "path \<Rightarrow> exn + string list"
  Image_new :: image

text \<open>
  The loop that saves page \<open>i\<close> as \<^verbatim>\<open>page_{i+1:03d}.png\<close> in the output folder and
  collects the paths, shared by both conversions.
\<close>

fun save_pages :: "pdf_processor \<Rightarrow> path \<Rightarrow> (nat \<times> image) list \<Rightarrow> exn + path list" where
  "save_pages R output_folder [] = Inr []"
| "save_pages R output_folder ((i, img) # rest) =
     (let image_path = output_folder @ [''page_'' @ format_03d (i + 1) @ ''.png'']
      in case image_save R img image_path of
           Some e \<Rightarrow> Inl e
         | None \<Rightarrow>
             (case save_pages R output_folder rest of
                Inl e \<Rightarrow> Inl e
              | Inr image_paths \<Rightarrow> Inr (image_path # image_paths)))"

definition pdf_to_images :: "pdf_processor \<Rightarrow> path \<Rightarrow> path \<Rightarrow> path list" where
  "pdf_to_images R pdf_path output_folder =
     (case convert_from_path R pdf_path of
        Inl e \<Rightarrow> []
      | Inr images \<Rightarrow>
          (case save_pages R output_folder (enumerate 0 images) of
             Inl e \<Rightarrow> []
           | Inr image_paths \<Rightarrow> image_paths))"

definition docx_to_images :: "pdf_processor \<Rightarrow> path \<Rightarrow> path \<Rightarrow> path list" where
  "docx_to_images R docx_path output_folder =
     (case docx_Document R docx_path of
        Inl e \<Rightarrow> []
      | Inr paragraphs \<Rightarrow>
          (let chunks = map (\<lambda>i. py_slice paragraphs (int i) (int i + 10))
                          (py_range 0 (length paragraphs) 10)
           in case save_pages R output_folder
                     (enumerate 0 (map (\<lambda>chunk. Image_new R) chunks)) of
                Inl e \<Rightarrow> []
              | Inr image_paths \<Rightarrow> image_paths))"

section \<open>Output Materializer: \<^verbatim>\<open>utils/output_formatter.py\<close>\<close>

text \<open>
  A data frame is its column labels and its rows of cells. The constructors of pandas
  are collaborators that may raise; \<open>to_excel\<close> stands for writing one sheet and
  setting its column widths, \<open>Some e\<close> when either raises.
\<close>

record dataframe =
  columns :: "json list"
  cells :: "json list list"

record pandas =
  DataFrame :: "json \<Rightarrow> exn + dataframe"
  DataFrame_columns :: "json \<Rightarrow> json \<Rightarrow> exn + dataframe"
  from_dict :: "json \<Rightarrow> exn + dataframe"
  to_excel :: "string \<Rightarrow> dataframe \<Rightarrow> exn option"

text \<open>\<^verbatim>\<open>pd.DataFrame({"Error": [message]})\<close>: one column, one row.\<close>

definition error_frame :: "string \<Rightarrow> dataframe" where
  "error_frame message = \<lparr>columns = [JString ''Error''], cells = [[JString message]]\<rparr>"

text \<open>The choice of the data frame for one table payload, in the order of the source.\<close>

definition table_dataframe :: "pandas \<Rightarrow> json \<Rightarrow> exn + dataframe" where
  "table_dataframe P table_content =
     (case table_content of
        JArray xs \<Rightarrow> DataFrame P (JArray xs)
      | JObject kvs \<Rightarrow>
          (case map_of kvs ''rows'' of
             Some rows \<Rightarrow> DataFrame P rows
           | None \<Rightarrow>
               (case map_of kvs ''data'' of
                  Some d \<Rightarrow> DataFrame P d
                | None \<Rightarrow>
                    (case (map_of kvs ''headers'', map_of kvs ''values'') of
                       (Some hs, Some vs) \<Rightarrow> DataFrame_columns P vs hs
                     | _ \<Rightarrow>
                         (case from_dict P (JObject kvs) of
                            Inl e \<Rightarrow> Inr (error_frame ''Could not parse table data'')
                          | Inr df \<Rightarrow> Inr df))))
      | _ \<Rightarrow> Inr (error_frame ''Unexpected table data format''))"

text \<open>
  One entry of the list handed to \<^verbatim>\<open>format_table_output\<close>; the function reads both
  keys with a default, so either may be missing.
\<close>

record table_entry =
  table_page :: "nat option"
  table_payload :: "json option"

type_synonym sheet = "string \<times> dataframe"

fun write_tables :: "pandas \<Rightarrow> (nat \<times> table_entry) list \<Rightarrow> sheet list \<Rightarrow> exn + sheet list" where
  "write_tables P [] sheets = Inr sheets"
| "write_tables P ((i, table) # rest) sheets =
     (let page_num = (case table_page table of None \<Rightarrow> i + 1 | Some n \<Rightarrow> n);
          table_content = (case table_payload table of None \<Rightarrow> JObject [] | Some d \<Rightarrow> d)
      in case table_dataframe P table_content of
           Inl e \<Rightarrow> Inl e
         | Inr df \<Rightarrow>
             (let sheet_name = ''Page '' @ py_str_nat page_num
              in case to_excel P sheet_name df of
                   Some e \<Rightarrow> Inl e
                 | None \<Rightarrow> write_tables P rest (sheets @ [(sheet_name, df)])))"

text \<open>
  The body of the \<^verbatim>\<open>try\<close> block: the loop over the tables, then the writer is closed.
  Closing saves the workbook, and a workbook without any sheet cannot be saved. Opening
  the writer, and saving a workbook that has a sheet, are taken to succeed.
\<close>

definition write_workbook :: "pandas \<Rightarrow> table_entry list \<Rightarrow> exn + sheet list" where
  "write_workbook P table_data =
     bind_exn (write_tables P (enumerate 0 table_data) [])
       (\<lambda>sheets. if sheets = [] then Inl (Exception ''At least one sheet must be visible'')
                 else Inr sheets)"

text \<open>
  The function catches every exception of that body and returns \<^verbatim>\<open>None\<close> then;
  otherwise it returns the output path, given here with the sheets written.
\<close>

definition format_table_output ::
  "pandas \<Rightarrow> table_entry list \<Rightarrow> path \<Rightarrow> (path \<times> sheet list) option" where
  "format_table_output P table_data output_path =
     (case write_workbook P table_data of
        Inl e \<Rightarrow> None
      | Inr sheets \<Rightarrow> Some (output_path, sheets))"

text \<open>The value that \<^verbatim>\<open>format_text_output\<close> serialises.\<close>

definition format_text_output :: "json \<Rightarrow> json" where
  "format_text_output text_data =
     (case text_data of
        JObject kvs \<Rightarrow>
          JObject
            [(''headers'', (case map_of kvs ''headers'' of None \<Rightarrow> JArray [] | Some h \<Rightarrow> h)),
             (''content'',
                (case map_of kvs ''content'' of
                   Some c \<Rightarrow> c
                 | None \<Rightarrow>
                     (case map_of kvs ''text'' of
                        Some t \<Rightarrow> JArray [t]
                      | None \<Rightarrow> JArray [])))]
      | _ \<Rightarrow> JObject [(''headers'', JArray []), (''content'', JArray [text_data])])"

section \<open>Document Aggregator: \<^verbatim>\<open>utils/document_processor.py\<close>\<close>

subsection \<open>Paths\<close>

text \<open>
  \<^verbatim>\<open>Path.name\<close>, \<^verbatim>\<open>Path.suffix\<close>, \<^verbatim>\<open>Path.stem\<close>, \<^verbatim>\<open>Path.with_suffix\<close> and
  \<^verbatim>\<open>str(path)\<close>. The suffix starts at the last dot of the name, unless that dot is
  the first or the last character. The first part of an absolute path is the root
  \<^verbatim>\<open>/\<close>, which \<^verbatim>\<open>str\<close> does not follow with a second separator. \<open>with_suffix\<close> is only applied to a path whose
  last component is the stem of an accepted file name, which is never empty.
\<close>

definition path_name :: "path \<Rightarrow> string" where
  "path_name p = (if p = [] then [] else last p)"

definition has_suffix :: "string \<Rightarrow> bool" where
  "has_suffix name =
     (let i = py_rfind name CHR ''.'' in 0 < i \<and> i < int (length name) - 1)"

definition path_suffix :: "path \<Rightarrow> string" where
  "path_suffix p =
     (let name = path_name p
      in if has_suffix name then drop (nat (py_rfind name CHR ''.'')) name else [])"

definition path_stem :: "path \<Rightarrow> string" where
  "path_stem p =
     (let name = path_name p
      in if has_suffix name then take (nat (py_rfind name CHR ''.'')) name else name)"

definition with_suffix :: "path \<Rightarrow> string \<Rightarrow> path" where
  "with_suffix p sfx = butlast p @ [path_stem p @ sfx]"

fun join_parts :: "path \<Rightarrow> string" where
  "join_parts [] = []"
| "join_parts [x] = x"
| "join_parts (x # y # ys) = x @ ''/'' @ join_parts (y # ys)"

definition path_str :: "path \<Rightarrow> string" where
  "path_str p =
     (case p of
        [] \<Rightarrow> ''.''
      | x # xs \<Rightarrow> if x = ''/'' then ''/'' @ join_parts xs else join_parts p)"

subsection \<open>Folding one page\<close>

text \<open>
  What \<^verbatim>\<open>list.extend(x)\<close> appends for a JSON value \<open>x\<close>: the elements of a list,
  the characters of a string, the keys of a dictionary; any other value is not iterable.
\<close>

fun py_iter :: "json \<Rightarrow> exn + json list" where
  "py_iter (JArray xs) = Inr xs"
| "py_iter (JString s) = Inr (map (\<lambda>c. JString [c]) s)"
| "py_iter (JObject kvs) = Inr (map (\<lambda>kv. JString (fst kv)) kvs)"
| "py_iter v = Inl (TypeError ''object is not iterable'')"

record text_artifact =
  headers :: "json list"
  content :: "json list"

text \<open>The block under \<^verbatim>\<open># Aggregate text data\<close>, the same in both page loops.\<close>

definition aggregate_text :: "json \<Rightarrow> text_artifact \<Rightarrow> exn + text_artifact" where
  "aggregate_text d text_data =
     (case d of
        JObject kvs \<Rightarrow>
          bind_exn
            (case map_of kvs ''headers'' of
               None \<Rightarrow> Inr text_data
             | Some h \<Rightarrow>
                 bind_exn (py_iter h)
                   (\<lambda>hs. Inr (text_data\<lparr>headers := headers text_data @ hs\<rparr>)))
            (\<lambda>text_data.
               case map_of kvs ''content'' of
                 Some c \<Rightarrow>
                   bind_exn (py_iter c)
                     (\<lambda>cs. Inr (text_data\<lparr>content := content text_data @ cs\<rparr>))
               | None \<Rightarrow>
                   (case map_of kvs ''text'' of
                      Some t \<Rightarrow> Inr (text_data\<lparr>content := content text_data @ [t]\<rparr>)
                    | None \<Rightarrow> Inr text_data))
      | _ \<Rightarrow> Inr text_data)"

text \<open>\<^verbatim>\<open>"table" in analysis.get("raw_response", "").lower()\<close>\<close>

definition table_indicator :: "model_response \<Rightarrow> bool" where
  "table_indicator analysis =
     py_in ''table'' (lower (case raw_response analysis of None \<Rightarrow> [] | Some t \<Rightarrow> t))"

text \<open>\<^verbatim>\<open>response["data"]\<close>: a missing key raises.\<close>

definition subscript_data :: "model_response \<Rightarrow> exn + json" where
  "subscript_data r = (case data r of None \<Rightarrow> Inl (KeyError ''data'') | Some d \<Rightarrow> Inr d)"

text \<open>
  The gateway calls of one page: classification, text extraction, and table extraction
  when the classification mentions a table. None of these statements can raise. The
  record keeps the three local variables \<^verbatim>\<open>analysis\<close>, \<^verbatim>\<open>text_result\<close> and
  \<^verbatim>\<open>table_result\<close> of the loop body.
\<close>

record page_analysis =
  classification :: model_response
  textResult :: model_response
  tableResult :: "model_response option"

definition page_calls :: "gateway \<Rightarrow> path \<Rightarrow> call list \<Rightarrow> page_analysis \<times> call list" where
  "page_calls G img_path log =
     (let (analysis, log1) = analyze_document_type G img_path log;
          (text_result, log2) = extract_text G img_path log1
      in if table_indicator analysis then
           (let (table_result, log3) = extract_table G img_path log2
            in (\<lparr>classification = analysis, textResult = text_result,
                 tableResult = Some table_result\<rparr>, log3))
         else
           (\<lparr>classification = analysis, textResult = text_result,
             tableResult = None\<rparr>, log2))"

text \<open>
  The rest of the loop body: what page \<open>i\<close> adds to \<^verbatim>\<open>results\<close>, \<^verbatim>\<open>table_data\<close>
  and \<^verbatim>\<open>text_data\<close>.
\<close>

record page_entry =
  page :: nat
  page_text_data :: json
  table_detected :: bool

type_synonym loop_state = "page_entry list \<times> table_entry list \<times> text_artifact"

definition page_fold :: "nat \<Rightarrow> page_analysis \<Rightarrow> loop_state \<Rightarrow> exn + loop_state" where
  "page_fold i pa st =
     (case st of (results, table_data, text_data) \<Rightarrow>
        bind_exn
          (case tableResult pa of
             None \<Rightarrow> Inr table_data
           | Some table_result \<Rightarrow>
               if success table_result then
                 bind_exn (subscript_data table_result)
                   (\<lambda>d. Inr (table_data @
                               [\<lparr>table_page = Some (i + 1), table_payload = Some d\<rparr>]))
               else Inr table_data)
          (\<lambda>table_data.
             if success (textResult pa) then
               bind_exn (subscript_data (textResult pa))
                 (\<lambda>d. bind_exn (aggregate_text d text_data)
                    (\<lambda>text_data'.
                       Inr (results @
                              [\<lparr>page = i + 1, page_text_data = d,
                                table_detected = table_indicator (classification pa)\<rparr>],
                            table_data, text_data')))
             else Inr (results, table_data, text_data)))"

fun page_loop ::
  "gateway \<Rightarrow> (nat \<times> path) list \<Rightarrow> loop_state \<Rightarrow> call list \<Rightarrow> exn + (loop_state \<times> call list)" where
  "page_loop G [] st log = Inr (st, log)"
| "page_loop G ((i, img_path) # rest) st log =
     (case page_calls G img_path log of
        (pa, log') \<Rightarrow>
          (case page_fold i pa st of
             Inl e \<Rightarrow> Inl e
           | Inr st' \<Rightarrow> page_loop G rest st' log'))"

subsection \<open>Documents\<close>

text \<open>
  The dictionary returned to the caller: the failure shape with \<^verbatim>\<open>success: False\<close>
  and an error text, the shape of a PDF or DOCX document, and the shape of an image.
\<close>

datatype doc_result =
    Failed (error_text: string)
  | Paged (document_type: string) (pages_processed: nat) (text_output_path: string)
      (table_output_path: "string option") (screenshot_folder: string)
      (results: "page_entry list")
  | Single (document_type: string) (text_output_path: string)
      (table_output_path: "string option") (analysis_data: json)

definition result_success :: "doc_result \<Rightarrow> bool" where
  "result_success r = (case r of Failed msg \<Rightarrow> False | _ \<Rightarrow> True)"

text \<open>
  What a run leaves behind: the gateway calls made, the JSON value dumped to the text
  output file (parsing the file gives the value back), and the outcome of
  \<^verbatim>\<open>format_table_output\<close> when it was called.
\<close>

record effects =
  gateway_calls :: "call list"
  json_written :: "(path \<times> json) option"
  workbook :: "(path \<times> sheet list) option"

definition no_effects :: effects where
  "no_effects = \<lparr>gateway_calls = [], json_written = None, workbook = None\<rparr>"

text \<open>
  The processor with its collaborators. \<^verbatim>\<open>preprocess_image\<close> returns the path of
  the enhanced copy, or the path it was given when enhancing fails. The two folders are
  those of \<^verbatim>\<open>config.py\<close>; creating folders and opening files are taken to succeed.
\<close>

record document_processor =
  pdf_processor :: pdf_processor
  preprocess_image :: "path \<Rightarrow> path"
  llm_client :: gateway
  pd :: pandas
  SCREENSHOT_FOLDER :: path
  OUTPUT_FOLDER :: path

definition ALLOWED_EXTENSIONS :: "(string \<times> string) list" where
  "ALLOWED_EXTENSIONS =
     [(''pdf'', ''application/pdf''),
      (''jpg'', ''image/jpeg''),
      (''jpeg'', ''image/jpeg''),
      (''png'', ''image/png''),
      (''tiff'', ''image/tiff''),
      (''docx'',
       ''application/vnd.openxmlformats-officedocument.wordprocessingml.document'')]"

text \<open>The extension that \<^verbatim>\<open>get_file_type\<close> returns; the MIME type is only logged.\<close>

definition get_file_type :: "path \<Rightarrow> string" where
  "get_file_type file_path = drop 1 (lower (path_suffix file_path))"

definition text_data_json :: "text_artifact \<Rightarrow> json" where
  "text_data_json text_data =
     JObject [(''headers'', JArray (headers text_data)),
              (''content'', JArray (content text_data))]"

definition initial_state :: loop_state where
  "initial_state = ([], [], \<lparr>headers = [], content = []\<rparr>)"

text \<open>
  The part that \<^verbatim>\<open>_process_pdf\<close> and \<^verbatim>\<open>_process_docx\<close> have in common once the
  page images exist: the page loop, the JSON dump, the spreadsheet and the result.
\<close>

definition process_pages ::
  "document_processor \<Rightarrow> string \<Rightarrow> string \<Rightarrow> path \<Rightarrow> path list \<Rightarrow>
     exn + (doc_result \<times> effects)" where
  "process_pages D kind doc_name screenshot_dir image_paths =
     bind_exn (page_loop (llm_client D) (enumerate 0 image_paths) initial_state [])
       (\<lambda>((results, table_data, text_data), log).
            (let output_base_path = OUTPUT_FOLDER D @ [doc_name];
                 text_output_path = with_suffix output_base_path ''.json'';
                 table_output_path = with_suffix output_base_path ''.xlsx''
             in Inr (Paged kind (length image_paths) (path_str text_output_path)
                       (if table_data \<noteq> [] then Some (path_str table_output_path) else None)
                       (path_str screenshot_dir) results,
                     \<lparr>gateway_calls = log,
                      json_written = Some (text_output_path, text_data_json text_data),
                      workbook =
                        (if table_data \<noteq> []
                         then format_table_output (pd D) table_data table_output_path
                         else None)\<rparr>)))"

definition process_pdf :: "document_processor \<Rightarrow> path \<Rightarrow> exn + (doc_result \<times> effects)" where
  "process_pdf D file_path =
     (let doc_name = path_stem file_path;
          screenshot_dir = SCREENSHOT_FOLDER D @ [doc_name];
          image_paths = pdf_to_images (pdf_processor D) file_path screenshot_dir
      in if image_paths = [] then
           Inr (Failed ''Failed to convert PDF to images'', no_effects)
         else process_pages D ''pdf'' doc_name screenshot_dir image_paths)"

definition process_docx :: "document_processor \<Rightarrow> path \<Rightarrow> exn + (doc_result \<times> effects)" where
  "process_docx D file_path =
     (let doc_name = path_stem file_path;
          screenshot_dir = SCREENSHOT_FOLDER D @ [doc_name];
          image_paths = docx_to_images (pdf_processor D) file_path screenshot_dir
      in if image_paths = [] then
           Inr (Failed ''Failed to convert DOCX to images'', no_effects)
         else process_pages D ''docx'' doc_name screenshot_dir image_paths)"

text \<open>\<^verbatim>\<open>_process_image\<close> of the document processor.\<close>

definition process_image_document ::
  "document_processor \<Rightarrow> path \<Rightarrow> exn + (doc_result \<times> effects)" where
  "process_image_document D file_path =
     (let processed_image = preprocess_image D file_path;
          (analysis, log1) = analyze_document_type (llm_client D) processed_image [];
          (text_result, log2) = extract_text (llm_client D) processed_image log1;
          doc_name = path_stem file_path
      in bind_exn
           (if table_indicator analysis then
              (let (table_result, log3) = extract_table (llm_client D) processed_image log2
               in if success table_result then
                    bind_exn (subscript_data table_result)
                      (\<lambda>d. let table_output_path = OUTPUT_FOLDER D @ [doc_name @ ''.xlsx'']
                            in Inr (Some table_output_path,
                                    format_table_output (pd D)
                                      [\<lparr>table_page = Some 1, table_payload = Some d\<rparr>]
                                      table_output_path,
                                    log3))
                  else Inr (None, None, log3))
            else Inr (None, None, log2))
           (\<lambda>(table_output_path, wb, log).
              let text_output_path = OUTPUT_FOLDER D @ [doc_name @ ''.json'']
              in bind_exn (subscript_data text_result)
                   (\<lambda>d. Inr (Single ''image'' (path_str text_output_path)
                                 (map_option path_str table_output_path)
                                 (case data analysis of None \<Rightarrow> JObject [] | Some a \<Rightarrow> a),
                               \<lparr>gateway_calls = log,
                                json_written = Some (text_output_path, d),
                                workbook = wb\<rparr>))))"

definition process_document ::
  "document_processor \<Rightarrow> path \<Rightarrow> exn + (doc_result \<times> effects)" where
  "process_document D file_path =
     (let file_extension = get_file_type file_path
      in if map_of ALLOWED_EXTENSIONS file_extension = None then
           Inr (Failed (''Unsupported file type: '' @ file_extension), no_effects)
         else if file_extension = ''pdf'' then process_pdf D file_path
         else if file_extension \<in> set [''jpg'', ''jpeg'', ''png'', ''tiff''] then
           process_image_document D file_path
         else if file_extension = ''docx'' then process_docx D file_path
         else Inr (Failed (''Unsupported file type: '' @ file_extension), no_effects))"

section \<open>A concrete installation\<close>

text \<open>
  Collaborators for running the definitions on concrete documents.

  The backend answers every classification with a sentence that mentions a table and
  every table extraction with an empty JSON object wrapped in prose. Text extraction
  fails for the image \<^verbatim>\<open>page_001.png\<close>, answers \<^verbatim>\<open>page_003.png\<close> with a brace pair
  that is not JSON and \<^verbatim>\<open>page_004.png\<close> with an object holding an integer of 5001
  digits, and returns plain text otherwise.

  The parser stands for \<^verbatim>\<open>json.loads\<close> on the blocks that these answers contain: the
  empty object is parsed, the long integer exceeds the limit of 4300 digits for the
  conversion of an integer, and the third block is not JSON.
\<close>

definition big_integer_text :: string where
  "big_integer_text =
     ''{'' @ [CHR 0x22] @ ''n'' @ [CHR 0x22] @ '': 1'' @ replicate 5000 CHR ''0'' @ ''}''"

definition demo_loads :: "string \<Rightarrow> loads_result" where
  "demo_loads s =
     (if s = ''{}'' then Parsed (JObject [])
      else if s = big_integer_text then
        OtherError ''Exceeds the limit (4300 digits) for integer string conversion''
      else JSONDecodeError)"

definition demo_backend :: "path \<Rightarrow> prompt_type \<Rightarrow> backend_reply" where
  "demo_backend p kind =
     (if kind = document_analysis then Responded (Some ''A form with a Table'')
      else if kind = table_extraction then Responded (Some ''Result: {} done'')
      else if path_name p = ''page_001.png'' then Raised ''Connection refused''
      else if path_name p = ''page_003.png'' then Responded (Some ''Here: {not json}'')
      else if path_name p = ''page_004.png'' then Responded (Some big_integer_text)
      else Responded (Some ''hello''))"

definition demo_gateway :: gateway where
  "demo_gateway = \<lparr>backend = demo_backend, json_loads = demo_loads\<rparr>"

text \<open>
  Converting \<^verbatim>\<open>uploads/doc.pdf\<close> gives two pages, any other PDF cannot be converted;
  \<^verbatim>\<open>uploads/empty.docx\<close> opens and has no paragraphs, \<^verbatim>\<open>uploads/notes.docx\<close> has
  twelve.
\<close>

definition demo_pdf_processor :: pdf_processor where
  "demo_pdf_processor =
     \<lparr>convert_from_path =
        (\<lambda>p. if p = [''uploads'', ''doc.pdf''] then Inr [''first'', ''second'']
             else Inl (Exception ''Unable to get page count'')),
      image_save = (\<lambda>img p. None),
      docx_Document =
        (\<lambda>p. if p = [''uploads'', ''empty.docx''] then Inr []
             else if p = [''uploads'', ''notes.docx''] then Inr (replicate 12 ''A paragraph.'')
             else Inl (Exception ''Package not found'')),
      Image_new = ''blank''\<rparr>"

text \<open>
  The part of pandas that the payloads below reach. A list of row mappings with the same
  keys becomes a frame with those keys as columns, an empty list or an empty mapping
  becomes the empty frame; a scalar is refused by the frame constructor, a mapping of
  scalars by \<^verbatim>\<open>from_dict\<close>, and rows wider or all narrower than the number of
  headers by the constructor with \<^verbatim>\<open>columns\<close>. Writing a sheet fails in the column-width loop
  when a column label is not a string, as \<^verbatim>\<open>len(column)\<close> raises then. Inputs outside
  this part are answered with an exception of the stand-in.
\<close>

definition same_keys :: "(string \<times> json) list \<Rightarrow> json \<Rightarrow> bool" where
  "same_keys kvs row = (case row of JObject kvs' \<Rightarrow> map fst kvs' = map fst kvs | _ \<Rightarrow> False)"

definition row_values :: "json \<Rightarrow> json list" where
  "row_values row = (case row of JObject kvs \<Rightarrow> map snd kvs | JArray xs \<Rightarrow> xs | _ \<Rightarrow> [])"

definition is_scalar :: "json \<Rightarrow> bool" where
  "is_scalar v = (case v of JArray xs \<Rightarrow> False | JObject kvs \<Rightarrow> False | _ \<Rightarrow> True)"

definition is_array :: "json \<Rightarrow> bool" where
  "is_array v = (case v of JArray xs \<Rightarrow> True | _ \<Rightarrow> False)"

definition is_label :: "json \<Rightarrow> bool" where
  "is_label v = (case v of JString s \<Rightarrow> True | _ \<Rightarrow> False)"

definition demo_DataFrame :: "json \<Rightarrow> exn + dataframe" where
  "demo_DataFrame v =
     (case v of
        JArray rows \<Rightarrow>
          (case rows of
             [] \<Rightarrow> Inr \<lparr>columns = [], cells = []\<rparr>
           | JObject kvs # rest \<Rightarrow>
               if list_all (same_keys kvs) rest then
                 Inr \<lparr>columns = map (\<lambda>kv. JString (fst kv)) kvs, cells = map row_values rows\<rparr>
               else Inl (Exception ''outside the stand-in'')
           | _ \<Rightarrow> Inl (Exception ''outside the stand-in''))
      | JObject kvs \<Rightarrow>
          if kvs = [] then Inr \<lparr>columns = [], cells = []\<rparr>
          else Inl (Exception ''outside the stand-in'')
      | _ \<Rightarrow> Inl (Exception ''DataFrame constructor not properly called!''))"

definition demo_DataFrame_columns :: "json \<Rightarrow> json \<Rightarrow> exn + dataframe" where
  "demo_DataFrame_columns vs hs =
     (case (vs, hs) of
        (JArray rows, JArray labels) \<Rightarrow>
          if rows \<noteq> [] \<and> list_all is_array rows then
            (if list_all (\<lambda>row. length (row_values row) = length labels) rows then
               Inr \<lparr>columns = labels, cells = map row_values rows\<rparr>
             else if fold max (map (\<lambda>row. length (row_values row)) rows) 0 \<noteq> length labels
             then Inl (Exception ''columns passed do not match the width of the passed data'')
             else Inl (Exception ''outside the stand-in''))
          else Inl (Exception ''outside the stand-in'')
      | _ \<Rightarrow> Inl (Exception ''outside the stand-in''))"

definition demo_from_dict :: "json \<Rightarrow> exn + dataframe" where
  "demo_from_dict v =
     (case v of
        JObject kvs \<Rightarrow>
          if kvs = [] then Inr \<lparr>columns = [], cells = []\<rparr>
          else if list_all (\<lambda>kv. is_scalar (snd kv)) kvs then
            Inl (Exception ''If using all scalar values, you must pass an index'')
          else Inl (Exception ''outside the stand-in'')
      | _ \<Rightarrow> Inl (Exception ''outside the stand-in''))"

definition demo_to_excel :: "string \<Rightarrow> dataframe \<Rightarrow> exn option" where
  "demo_to_excel sheet_name df =
     (if list_all is_label (columns df) then None
      else Some (TypeError ''object of type int has no len()''))"

definition demo_pandas :: pandas where
  "demo_pandas =
     \<lparr>DataFrame = demo_DataFrame,
      DataFrame_columns = demo_DataFrame_columns,
      from_dict = demo_from_dict,
      to_excel = demo_to_excel\<rparr>"

text \<open>The folders are absolute, as \<^verbatim>\<open>config.py\<close> makes them.\<close>

definition demo_processor :: document_processor where
  "demo_processor =
     \<lparr>pdf_processor = demo_pdf_processor,
      preprocess_image = (\<lambda>p. p),
      llm_client = demo_gateway,
      pd = demo_pandas,
      SCREENSHOT_FOLDER = [''/'', ''srv'', ''ocr'', ''data'', ''screenshots''],
      OUTPUT_FOLDER = [''/'', ''srv'', ''ocr'', ''data'', ''outputs'']\<rparr>"

text \<open>The same installation while the backend is not running.\<close>

definition offline_gateway :: gateway where
  "offline_gateway =
     \<lparr>backend = (\<lambda>p kind. Raised ''Connection refused''), json_loads = demo_loads\<rparr>"

definition offline_processor :: document_processor where
  "offline_processor = demo_processor\<lparr>llm_client := offline_gateway\<rparr>"

section \<open>Strings and slices\<close>

lemma py_in_char: "py_in [c] s = (c \<in> set s)"
  by (induction s) auto


lemma py_find_absent: "c \<notin> set s \<Longrightarrow> py_find s c = -1"
  by (induction s) (auto simp: Let_def)




section \<open>The gateway's response\<close>

lemma process_image_responded:
  assumes "backend G image_path kind = Responded resp"
    and "raw = (case resp of None \<Rightarrow> [] | Some t \<Rightarrow> t)"
  shows "process_image G image_path kind =
     (if CHR ''{'' \<in> set raw \<and> CHR ''}'' \<in> set raw then
        (case json_loads G (py_slice raw (py_find raw CHR ''{'') (py_rfind raw CHR ''}'' + 1)) of
           Parsed v \<Rightarrow>
             \<lparr>success = True, data = Some v, raw_response = Some raw, error = None\<rparr>
         | JSONDecodeError \<Rightarrow>
             \<lparr>success = True, data = Some (JObject [(''text'', JString raw)]),
              raw_response = Some raw, error = None\<rparr>
         | OtherError msg \<Rightarrow>
             \<lparr>success = False, data = None, raw_response = None, error = Some msg\<rparr>)
      else \<lparr>success = True, data = Some (JObject [(''text'', JString raw)]),
            raw_response = Some raw, error = None\<rparr>)"
  using assms
  by (cases resp) (auto simp: process_image_def Let_def py_in_char)










text \<open>
  Claim C8. Every response of the gateway has a payload exactly when it is a success and
  an error message exactly when it is not; when the request to the backend raises, the
  response is a failure that carries the message of the exception and no payload.
\<close>

theorem model_response_invariant:
  "(data (process_image G image_path kind) \<noteq> None \<longleftrightarrow> success (process_image G image_path kind)) \<and>
   (error (process_image G image_path kind) \<noteq> None \<longleftrightarrow> \<not> success (process_image G image_path kind)) \<and>
   (\<forall>msg. backend G image_path kind = Raised msg \<longrightarrow>
      process_image G image_path kind =
        \<lparr>success = False, data = None, raw_response = None, error = Some msg\<rparr>)"
  by (simp add: process_image_def Let_def
      split: backend_reply.splits option.splits loads_result.splits)

theorem model_response_invariant_witness:
  "backend offline_gateway [''uploads'', ''scan.png''] text_extraction = Raised ''Connection refused'' \<and>
   process_image offline_gateway [''uploads'', ''scan.png''] text_extraction =
     \<lparr>success = False, data = None, raw_response = None, error = Some ''Connection refused''\<rparr>"
  using model_response_invariant [of offline_gateway "[''uploads'', ''scan.png'']" text_extraction]
  by (simp add: offline_gateway_def)

section \<open>Table detection\<close>



lemma page_calls_eq:
  "page_calls G img_path log =
     (\<lparr>classification = process_image G img_path document_analysis,
       textResult = process_image G img_path text_extraction,
       tableResult =
         (if table_indicator (process_image G img_path document_analysis)
          then Some (process_image G img_path table_extraction) else None)\<rparr>,
      log @ [(img_path, document_analysis), (img_path, text_extraction)] @
        (if table_indicator (process_image G img_path document_analysis)
         then [(img_path, table_extraction)] else []))"
  by (simp add: page_calls_def analyze_document_type_def extract_text_def extract_table_def)



lemma demo_classification:
  "process_image demo_gateway p document_analysis =
     \<lparr>success = True, data = Some (JObject [(''text'', JString ''A form with a Table'')]),
      raw_response = Some ''A form with a Table'', error = None\<rparr>"
  by (simp add: process_image_def demo_gateway_def demo_backend_def Let_def)


section \<open>Folding a text payload\<close>

text \<open>
  Claim C4, as amended. For a payload that is a mapping whose \<^verbatim>\<open>headers\<close> and
  \<^verbatim>\<open>content\<close>, when present, are sequences: the headers are appended in order to the
  running headers, the content is appended in order to the running content, and the
  \<^verbatim>\<open>text\<close> field is appended to the running content exactly when the payload has a
  \<^verbatim>\<open>text\<close> field and no \<^verbatim>\<open>content\<close> field, whatever other fields it has.
\<close>

theorem aggregate_text_mapping:
  assumes "map_of kvs ''headers'' = None \<and> hs = [] \<or> map_of kvs ''headers'' = Some (JArray hs)"
    and "map_of kvs ''content'' = None \<and> cs = [] \<or> map_of kvs ''content'' = Some (JArray cs)"
  shows "aggregate_text (JObject kvs) text_data =
           Inr \<lparr>headers = headers text_data @ hs,
                content = content text_data @ cs @
                  (case (map_of kvs ''content'', map_of kvs ''text'') of
                     (None, Some t) \<Rightarrow> [t]
                   | _ \<Rightarrow> [])\<rparr>"
  using assms
  by (auto simp: aggregate_text_def bind_exn_def split: option.splits)

theorem aggregate_text_mapping_witness:
  "map_of [(''headers'', JArray [JString ''Title'']), (''extra'', JInt 1),
           (''text'', JString ''Body'')] ''headers'' = Some (JArray [JString ''Title'']) \<and>
   map_of [(''headers'', JArray [JString ''Title'']), (''extra'', JInt 1),
           (''text'', JString ''Body'')] ''content'' = None \<and>
   aggregate_text
     (JObject [(''headers'', JArray [JString ''Title'']), (''extra'', JInt 1),
               (''text'', JString ''Body'')])
     \<lparr>headers = [JString ''Old''], content = []\<rparr> =
     Inr \<lparr>headers = [JString ''Old'', JString ''Title''], content = [JString ''Body'']\<rparr>"
  using aggregate_text_mapping [of "[(''headers'', JArray [JString ''Title'']), (''extra'', JInt 1),
           (''text'', JString ''Body'')]" "[JString ''Title'']" "[]"
      "\<lparr>headers = [JString ''Old''], content = []\<rparr>"]
  by simp

text \<open>
  The claim as first stated fails: a payload with \<^verbatim>\<open>headers\<close> and \<^verbatim>\<open>text\<close> has its
  text appended to the content although \<^verbatim>\<open>text\<close> is not its only field.
\<close>

theorem text_not_only_field_counterexample:
  "map_of [(''headers'', JArray [JString ''Title'']), (''text'', JString ''Body'')] ''headers'' \<noteq> None \<and>
   aggregate_text
     (JObject [(''headers'', JArray [JString ''Title'']), (''text'', JString ''Body'')])
     \<lparr>headers = [], content = []\<rparr> =
     Inr \<lparr>headers = [JString ''Title''], content = [JString ''Body'']\<rparr>"
  by (simp add: aggregate_text_def bind_exn_def)

section \<open>Choosing the data frame\<close>

text \<open>
  The shape of a table payload is tried in a fixed order and the first match decides: a
  sequence goes to the frame constructor as it is; a mapping with \<^verbatim>\<open>rows\<close> uses that
  field, also when it has \<^verbatim>\<open>data\<close> as well; a mapping with \<^verbatim>\<open>data\<close> and no
  \<^verbatim>\<open>rows\<close> uses \<^verbatim>\<open>data\<close>; a mapping with \<^verbatim>\<open>headers\<close> and \<^verbatim>\<open>values\<close> and neither
  of the former uses those two; any other mapping is converted directly, and when that
  conversion raises the frame is the one-cell error marker; a payload that is neither a
  sequence nor a mapping gives the other one-cell error marker.
\<close>

lemma table_shape_order:
  "table_dataframe P (JArray xs) = DataFrame P (JArray xs) \<and>
   (\<forall>rows. map_of kvs ''rows'' = Some rows \<longrightarrow>
      table_dataframe P (JObject kvs) = DataFrame P rows) \<and>
   (\<forall>d. map_of kvs ''rows'' = None \<and> map_of kvs ''data'' = Some d \<longrightarrow>
      table_dataframe P (JObject kvs) = DataFrame P d) \<and>
   (\<forall>hs vs. map_of kvs ''rows'' = None \<and> map_of kvs ''data'' = None \<and>
      map_of kvs ''headers'' = Some hs \<and> map_of kvs ''values'' = Some vs \<longrightarrow>
      table_dataframe P (JObject kvs) = DataFrame_columns P vs hs) \<and>
   (map_of kvs ''rows'' = None \<and> map_of kvs ''data'' = None \<and>
      (map_of kvs ''headers'' = None \<or> map_of kvs ''values'' = None) \<longrightarrow>
      table_dataframe P (JObject kvs) =
        (case from_dict P (JObject kvs) of
           Inr df \<Rightarrow> Inr df
         | Inl e \<Rightarrow> Inr (error_frame ''Could not parse table data''))) \<and>
   (\<forall>v. (\<forall>ys. v \<noteq> JArray ys) \<and> (\<forall>zs. v \<noteq> JObject zs) \<longrightarrow>
      table_dataframe P v = Inr (error_frame ''Unexpected table data format''))"
proof -
  have a: "table_dataframe P (JArray xs) = DataFrame P (JArray xs)"
    by (simp add: table_dataframe_def)
  have b: "\<forall>rows. map_of kvs ''rows'' = Some rows \<longrightarrow>
      table_dataframe P (JObject kvs) = DataFrame P rows"
    by (simp add: table_dataframe_def)
  have c: "\<forall>d. map_of kvs ''rows'' = None \<and> map_of kvs ''data'' = Some d \<longrightarrow>
      table_dataframe P (JObject kvs) = DataFrame P d"
    by (simp add: table_dataframe_def)
  have d: "\<forall>hs vs. map_of kvs ''rows'' = None \<and> map_of kvs ''data'' = None \<and>
      map_of kvs ''headers'' = Some hs \<and> map_of kvs ''values'' = Some vs \<longrightarrow>
      table_dataframe P (JObject kvs) = DataFrame_columns P vs hs"
    by (simp add: table_dataframe_def)
  have e: "map_of kvs ''rows'' = None \<and> map_of kvs ''data'' = None \<and>
      (map_of kvs ''headers'' = None \<or> map_of kvs ''values'' = None) \<longrightarrow>
      table_dataframe P (JObject kvs) =
        (case from_dict P (JObject kvs) of
           Inr df \<Rightarrow> Inr df
         | Inl e \<Rightarrow> Inr (error_frame ''Could not parse table data''))"
    by (auto simp: table_dataframe_def split: option.splits sum.splits)
  have f: "\<forall>v. (\<forall>ys. v \<noteq> JArray ys) \<and> (\<forall>zs. v \<noteq> JObject zs) \<longrightarrow>
      table_dataframe P v = Inr (error_frame ''Unexpected table data format'')"
  proof (intro allI impI)
    fix v assume "(\<forall>ys. v \<noteq> JArray ys) \<and> (\<forall>zs. v \<noteq> JObject zs)"
    then show "table_dataframe P v = Inr (error_frame ''Unexpected table data format'')"
      by (cases v) (simp_all add: table_dataframe_def)
  qed
  show ?thesis by (intro conjI a b c d e f)
qed

text \<open>
  A frame that was chosen and whose sheet can be written becomes the sheet of its page;
  this is how a marker frame reaches the workbook.
\<close>

lemma single_table_sheet:
  assumes "table_dataframe P v = Inr df"
    and "to_excel P (''Page '' @ py_str_nat n) df = None"
  shows "format_table_output P [\<lparr>table_page = Some n, table_payload = Some v\<rparr>] out =
           Some (out, [(''Page '' @ py_str_nat n, df)])"
  using assms
  by (simp add: format_table_output_def write_workbook_def bind_exn_def enumerate_eq_zip Let_def)

text \<open>
  No handler surrounds the frame constructors of the first four shapes. When the frame
  of a table cannot be built, the exception ends the loop: the function returns
  \<^verbatim>\<open>None\<close>, whatever tables come before or after.
\<close>

lemma write_tables_raises:
  assumes "table_dataframe P (case table_payload t of None \<Rightarrow> JObject [] | Some d \<Rightarrow> d) = Inl e"
    and "(i, t) \<in> set its"
  shows "\<exists>e'. write_tables P its sheets = Inl e'"
  using assms(2)
proof (induction its arbitrary: sheets)
  case Nil
  then show ?case by simp
next
  case (Cons x its)
  obtain j u where x: "x = (j, u)" by (cases x)
  show ?case
  proof (cases "x = (i, t)")
    case True
    with assms(1) x show ?thesis by (simp add: Let_def)
  next
    case False
    with Cons.prems have "(i, t) \<in> set its" by simp
    from Cons.IH [OF this] show ?thesis
      by (simp add: x Let_def split: sum.splits option.splits)
  qed
qed

lemma raising_constructor_gives_none:
  assumes "table_dataframe P (case table_payload t of None \<Rightarrow> JObject [] | Some d \<Rightarrow> d) = Inl e"
    and "t \<in> set table_data"
  shows "format_table_output P table_data out = None"
proof -
  from assms(2) obtain k where k: "k < length table_data" "table_data ! k = t"
    by (auto simp: in_set_conv_nth)
  then have "enumerate 0 table_data ! k = (k, t)" by (simp add: nth_enumerate_eq)
  moreover have "k < length (enumerate 0 table_data)" using k(1) by simp
  ultimately have "(k, t) \<in> set (enumerate 0 table_data)" by (metis nth_mem)
  then obtain i where "(i, t) \<in> set (enumerate 0 table_data)" by blast
  from write_tables_raises [OF assms(1) this] obtain e' where
    "write_tables P (enumerate 0 table_data) [] = Inl e'" by blast
  then show ?thesis by (simp add: format_table_output_def write_workbook_def bind_exn_def)
qed

text \<open>
  Claim C6. The claim says that a payload which cannot be turned into a table yields a
  one-cell error-marker sheet. The table of page 2 below has two headers and a row of
  three values: it matches the shape with \<^verbatim>\<open>headers\<close> and \<^verbatim>\<open>values\<close>, the frame
  constructor refuses it, and \<^verbatim>\<open>format_table_output\<close> returns \<^verbatim>\<open>None\<close>. No marker
  sheet is written for page 2, and the sheet of page 1, which the same call returns when
  page 1 is alone, is not returned either. A mapping of scalars without any of the
  known fields does get the marker.
\<close>

theorem mismatched_headers_give_no_sheet:
  "table_dataframe demo_pandas
     (JObject [(''headers'', JArray [JString ''item'', JString ''price'']),
               (''values'', JArray [JArray [JString ''pen'', JInt 2, JInt 3]])]) =
     Inl (Exception ''columns passed do not match the width of the passed data'') \<and>
   format_table_output demo_pandas
     [\<lparr>table_page = Some 1,
       table_payload = Some (JObject [(''rows'',
          JArray [JObject [(''item'', JString ''pen''), (''price'', JInt 2)]])])\<rparr>,
      \<lparr>table_page = Some 2,
       table_payload = Some (JObject [(''headers'', JArray [JString ''item'', JString ''price'']),
          (''values'', JArray [JArray [JString ''pen'', JInt 2, JInt 3]])])\<rparr>]
     [''out.xlsx''] = None \<and>
   format_table_output demo_pandas
     [\<lparr>table_page = Some 1,
       table_payload = Some (JObject [(''rows'',
          JArray [JObject [(''item'', JString ''pen''), (''price'', JInt 2)]])])\<rparr>]
     [''out.xlsx''] =
     Some ([''out.xlsx''],
           [(''Page 1'', \<lparr>columns = [JString ''item'', JString ''price''],
                          cells = [[JString ''pen'', JInt 2]]\<rparr>)]) \<and>
   format_table_output demo_pandas
     [\<lparr>table_page = Some 3, table_payload = Some (JObject [(''total'', JInt 3)])\<rparr>]
     [''out.xlsx''] =
     Some ([''out.xlsx''],
           [(''Page 3'', \<lparr>columns = [JString ''Error''],
                          cells = [[JString ''Could not parse table data'']]\<rparr>)])"
  by code_simp

section \<open>Documents that cannot be rasterized\<close>

text \<open>
  Claim C9. When the conversion of a PDF raises, \<^verbatim>\<open>pdf_to_images\<close> returns the empty
  list instead of raising; and when \<^verbatim>\<open>pdf_to_images\<close> returns the empty list for a
  document with the extension \<^verbatim>\<open>pdf\<close>, \<^verbatim>\<open>process_document\<close> returns the failure
  result with the error \<^verbatim>\<open>Failed to convert PDF to images\<close> and does nothing else.
\<close>

theorem pdf_conversion_failure:
  assumes "get_file_type file_path = ''pdf''"
  shows "(\<forall>e. convert_from_path R pdf_path = Inl e \<longrightarrow>
            pdf_to_images R pdf_path output_folder = []) \<and>
         (pdf_to_images (pdf_processor D) file_path
              (SCREENSHOT_FOLDER D @ [path_stem file_path]) = [] \<longrightarrow>
            process_document D file_path =
              Inr (Failed ''Failed to convert PDF to images'', no_effects))"
  using assms
  by (simp add: pdf_to_images_def process_document_def process_pdf_def
      ALLOWED_EXTENSIONS_def Let_def)

lemma demo_corrupt_type: "get_file_type [''uploads'', ''corrupt.pdf''] = ''pdf''"
  by code_simp

theorem pdf_conversion_failure_witness:
  "get_file_type [''uploads'', ''corrupt.pdf''] = ''pdf'' \<and>
   convert_from_path demo_pdf_processor [''uploads'', ''corrupt.pdf''] =
     Inl (Exception ''Unable to get page count'') \<and>
   pdf_to_images demo_pdf_processor [''uploads'', ''corrupt.pdf'']
     [''/'', ''srv'', ''ocr'', ''data'', ''screenshots'', ''corrupt''] = [] \<and>
   process_document demo_processor [''uploads'', ''corrupt.pdf''] =
     Inr (Failed ''Failed to convert PDF to images'', no_effects)"
proof -
  have stem: "path_stem [''uploads'', ''corrupt.pdf''] = ''corrupt''" by code_simp
  have conv: "convert_from_path demo_pdf_processor [''uploads'', ''corrupt.pdf''] =
     Inl (Exception ''Unable to get page count'')"
    by (simp add: demo_pdf_processor_def)
  from pdf_conversion_failure [OF demo_corrupt_type, of demo_pdf_processor
      "[''uploads'', ''corrupt.pdf'']" "[''/'', ''srv'', ''ocr'', ''data'', ''screenshots'', ''corrupt'']" demo_processor]
    conv
  show ?thesis
    by (simp add: demo_corrupt_type stem demo_processor_def)
qed

text \<open>
  Claim C10. A DOCX document that opens and has no paragraphs gives no chunk and so no
  page image, and \<^verbatim>\<open>process_document\<close> returns the failure result with the error
  \<^verbatim>\<open>Failed to convert DOCX to images\<close>, although the document was read.
\<close>

theorem empty_docx_fails:
  assumes "get_file_type file_path = ''docx''"
    and "docx_Document (pdf_processor D) file_path = Inr []"
  shows "docx_to_images (pdf_processor D) file_path output_folder = [] \<and>
         process_document D file_path =
           Inr (Failed ''Failed to convert DOCX to images'', no_effects)"
proof -
  have "docx_to_images (pdf_processor D) file_path folder = []" for folder
    using assms(2) by (simp add: docx_to_images_def py_range_def enumerate_eq_zip)
  then show ?thesis
    using assms(1)
    by (simp add: process_document_def process_docx_def ALLOWED_EXTENSIONS_def Let_def)
qed

lemma demo_empty_type: "get_file_type [''uploads'', ''empty.docx''] = ''docx''"
  by code_simp

theorem empty_docx_fails_witness:
  "get_file_type [''uploads'', ''empty.docx''] = ''docx'' \<and>
   docx_Document (pdf_processor demo_processor) [''uploads'', ''empty.docx''] = Inr [] \<and>
   docx_to_images (pdf_processor demo_processor) [''uploads'', ''empty.docx'']
     [''/'', ''srv'', ''ocr'', ''data'', ''screenshots'', ''empty''] = [] \<and>
   process_document demo_processor [''uploads'', ''empty.docx''] =
     Inr (Failed ''Failed to convert DOCX to images'', no_effects)"
proof -
  have doc: "docx_Document (pdf_processor demo_processor) [''uploads'', ''empty.docx''] = Inr []"
    by (simp add: demo_processor_def demo_pdf_processor_def)
  from empty_docx_fails [OF demo_empty_type doc, of "[''/'', ''srv'', ''ocr'', ''data'', ''screenshots'', ''empty'']"]
  show ?thesis by (simp add: demo_empty_type doc)
qed


section \<open>Image documents\<close>

text \<open>
  Claim C2. The claim says that \<^verbatim>\<open>process_document\<close> always returns a result. While
  the backend is not running, the text extraction of the image \<^verbatim>\<open>uploads/scan.png\<close>
  is a failure response without a \<^verbatim>\<open>data\<close> key, and \<^verbatim>\<open>process_document\<close> raises
  \<^verbatim>\<open>KeyError\<close> when it reads that key for the JSON dump.
\<close>

theorem image_text_failure_raises:
  "process_document offline_processor [''uploads'', ''scan.png''] = Inl (KeyError ''data'')"
  by code_simp

text \<open>
  Claim C7. The claim says that the JSON text output always has \<^verbatim>\<open>headers\<close> and
  \<^verbatim>\<open>content\<close> as sequences. For the image \<^verbatim>\<open>uploads/scan.png\<close>, whose text
  extraction answers with plain text, the value dumped to the JSON file is the
  gateway's payload with the single key \<^verbatim>\<open>text\<close>; it has neither key.
\<close>

theorem image_json_is_raw_payload:
  "process_document demo_processor [''uploads'', ''scan.png''] =
     Inr (Single ''image'' ''/srv/ocr/data/outputs/scan.json''
            (Some ''/srv/ocr/data/outputs/scan.xlsx'')
            (JObject [(''text'', JString ''A form with a Table'')]),
          \<lparr>gateway_calls =
             [([''uploads'', ''scan.png''], document_analysis),
              ([''uploads'', ''scan.png''], text_extraction),
              ([''uploads'', ''scan.png''], table_extraction)],
           json_written =
             Some ([''/'', ''srv'', ''ocr'', ''data'', ''outputs'', ''scan.json''],
                   JObject [(''text'', JString ''hello'')]),
           workbook =
             Some ([''/'', ''srv'', ''ocr'', ''data'', ''outputs'', ''scan.xlsx''],
                   [(''Page 1'', \<lparr>columns = [], cells = []\<rparr>)])\<rparr>)"
  by code_simp

section \<open>The page loop\<close>

lemma success_has_data:
  assumes "success (process_image G p kind)"
  shows "\<exists>d. data (process_image G p kind) = Some d"
proof (cases "backend G p kind")
  case (Raised msg)
  with assms show ?thesis by (simp add: process_image_def)
next
  case (Responded resp)
  from process_image_responded [OF Responded refl] assms show ?thesis
    by (auto split: if_splits loads_result.splits)
qed

lemma failure_has_no_data:
  assumes "\<not> success (process_image G p kind)"
  shows "data (process_image G p kind) = None"
proof (cases "backend G p kind")
  case (Raised msg)
  then show ?thesis by (simp add: process_image_def)
next
  case (Responded resp)
  from process_image_responded [OF Responded refl] assms show ?thesis
    by (auto split: if_splits loads_result.splits)
qed

lemma table_step_total:
  "\<exists>tds'. (case tableResult (fst (page_calls G p log)) of
             None \<Rightarrow> Inr tds
           | Some table_result \<Rightarrow>
               if success table_result then
                 bind_exn (subscript_data table_result)
                   (\<lambda>d. Inr (tds @ [\<lparr>table_page = Some (i + 1), table_payload = Some d\<rparr>]))
               else Inr tds) = (Inr tds' :: exn + table_entry list)"
proof (cases "table_indicator (process_image G p document_analysis)")
  case False
  then show ?thesis by (simp add: page_calls_eq)
next
  case True
  show ?thesis
  proof (cases "success (process_image G p table_extraction)")
    case False
    with True show ?thesis by (simp add: page_calls_eq)
  next
    case s: True
    from success_has_data [OF s] obtain d where "data (process_image G p table_extraction) = Some d"
      by blast
    with True s show ?thesis
      by (simp add: page_calls_eq subscript_data_def bind_exn_def)
  qed
qed

lemma page_fold_gateway:
  assumes safe: "\<forall>d td. data (process_image G p text_extraction) = Some d \<longrightarrow>
                   (\<exists>td'. aggregate_text d td = Inr td')"
  shows "\<exists>tds' td'.
           page_fold i (fst (page_calls G p log)) (rs, tds, td) =
             Inr (rs @ (case data (process_image G p text_extraction) of
                          None \<Rightarrow> []
                        | Some d \<Rightarrow>
                            [\<lparr>page = i + 1, page_text_data = d,
                              table_detected =
                                table_indicator (process_image G p document_analysis)\<rparr>]),
                  tds', td')"
proof -
  obtain tds' where
    t: "(case tableResult (fst (page_calls G p log)) of
             None \<Rightarrow> Inr tds
           | Some table_result \<Rightarrow>
               if success table_result then
                 bind_exn (subscript_data table_result)
                   (\<lambda>d. Inr (tds @ [\<lparr>table_page = Some (i + 1), table_payload = Some d\<rparr>]))
               else Inr tds) = (Inr tds' :: exn + table_entry list)"
    using table_step_total [where G = G and p = p and log = log and tds = tds and i = i]
    by blast
  have tr: "textResult (fst (page_calls G p log)) = process_image G p text_extraction"
    and cl: "classification (fst (page_calls G p log)) = process_image G p document_analysis"
    by (simp_all add: page_calls_eq)
  show ?thesis
  proof (cases "success (process_image G p text_extraction)")
    case False
    from failure_has_no_data [OF False]
    have n: "data (process_image G p text_extraction) = None" .
    from False have "page_fold i (fst (page_calls G p log)) (rs, tds, td) = Inr (rs, tds', td)"
      by (simp add: page_fold_def t tr bind_exn_def)
    then show ?thesis by (simp add: n)
  next
    case True
    from success_has_data [OF True] obtain d where
      d: "data (process_image G p text_extraction) = Some d" by blast
    with safe obtain td' where a: "aggregate_text d td = Inr td'" by blast
    have "page_fold i (fst (page_calls G p log)) (rs, tds, td) =
            Inr (rs @ [\<lparr>page = i + 1, page_text_data = d,
                        table_detected =
                          table_indicator (process_image G p document_analysis)\<rparr>],
                 tds', td')"
      using True d a by (simp add: page_fold_def t tr cl bind_exn_def subscript_data_def)
    then show ?thesis by (simp add: d)
  qed
qed

lemma page_loop_Cons:
  "page_loop G ((i, p) # ips) st log =
     (case page_fold i (fst (page_calls G p log)) st of
        Inl e \<Rightarrow> Inl e
      | Inr st' \<Rightarrow> page_loop G ips st' (snd (page_calls G p log)))"
  by (simp add: case_prod_beta)

lemma map_snd_enumerate:
  "map (\<lambda>ip. f (snd ip)) (enumerate 0 xs) = map f xs"
proof -
  have "map (\<lambda>ip. f (snd ip)) (enumerate 0 xs) = map f (map snd (enumerate 0 xs))"
    unfolding map_map comp_def ..
  also have "map snd (enumerate 0 xs) = xs"
    by (simp add: enumerate_eq_zip)
  finally show ?thesis .
qed

lemma page_loop_pages:
  assumes "\<forall>ip \<in> set ips. \<forall>d td. data (process_image G (snd ip) text_extraction) = Some d \<longrightarrow>
             (\<exists>td'. aggregate_text d td = Inr td')"
  shows "\<exists>tds' td'.
           page_loop G ips (rs, tds, td) log =
             Inr ((rs @ concat (map (\<lambda>ip.
                      case data (process_image G (snd ip) text_extraction) of
                        None \<Rightarrow> []
                      | Some d \<Rightarrow>
                          [\<lparr>page = fst ip + 1, page_text_data = d,
                            table_detected =
                              table_indicator (process_image G (snd ip) document_analysis)\<rparr>])
                    ips),
                   tds', td'),
                  log @ concat (map (\<lambda>ip. snd (page_calls G (snd ip) [])) ips))"
  using assms
proof (induction ips arbitrary: rs tds td log)
  case Nil
  then show ?case by simp
next
  case (Cons ip ips)
  obtain i p where ip: "ip = (i, p)" by (cases ip)
  let ?e = "\<lambda>ip. case data (process_image G (snd ip) text_extraction) of
                        None \<Rightarrow> []
                      | Some d \<Rightarrow>
                          [\<lparr>page = fst ip + 1, page_text_data = d,
                            table_detected =
                              table_indicator (process_image G (snd ip) document_analysis)\<rparr>]"
  from Cons.prems ip have safe: "\<forall>d td. data (process_image G p text_extraction) = Some d \<longrightarrow>
                   (\<exists>td'. aggregate_text d td = Inr td')" by simp
  from page_fold_gateway [OF safe, of i log rs tds td] obtain tds1 td1 where
    "page_fold i (fst (page_calls G p log)) (rs, tds, td) =
       Inr (rs @ (case data (process_image G p text_extraction) of
                    None \<Rightarrow> []
                  | Some d \<Rightarrow>
                      [\<lparr>page = i + 1, page_text_data = d,
                        table_detected =
                          table_indicator (process_image G p document_analysis)\<rparr>]),
            tds1, td1)"
    by blast
  then have
    f: "page_fold i (fst (page_calls G p log)) (rs, tds, td) = Inr (rs @ ?e (i, p), tds1, td1)"
    by (simp split: option.splits)
  from Cons.prems have rest: "\<forall>ip \<in> set ips. \<forall>d td.
      data (process_image G (snd ip) text_extraction) = Some d \<longrightarrow>
             (\<exists>td'. aggregate_text d td = Inr td')" by simp
  from Cons.IH [OF rest, of "rs @ ?e (i, p)" tds1 td1 "snd (page_calls G p log)"]
  obtain tds2 td2 where
    l: "page_loop G ips (rs @ ?e (i, p), tds1, td1) (snd (page_calls G p log)) =
          Inr (((rs @ ?e (i, p)) @ concat (map ?e ips), tds2, td2),
               snd (page_calls G p log) @
                 concat (map (\<lambda>ip. snd (page_calls G (snd ip) [])) ips))"
    by blast
  have log: "snd (page_calls G p log) = log @ snd (page_calls G p [])"
    by (simp add: page_calls_eq)
  have "page_loop G (ip # ips) (rs, tds, td) log =
          Inr ((rs @ concat (map ?e (ip # ips)), tds2, td2),
               log @ concat (map (\<lambda>ip. snd (page_calls G (snd ip) [])) (ip # ips)))"
    unfolding ip page_loop_Cons f using l by (simp add: log)
  then show ?case by blast
qed

lemma entry_pages:
  "map page (concat (map (\<lambda>ip.
       case data (process_image G (snd ip) text_extraction) of
         None \<Rightarrow> []
       | Some d \<Rightarrow>
           [\<lparr>page = fst ip + 1, page_text_data = d,
             table_detected = table_indicator (process_image G (snd ip) document_analysis)\<rparr>])
     ips)) =
   map (\<lambda>ip. fst ip + 1)
     (filter (\<lambda>ip. success (process_image G (snd ip) text_extraction)) ips)"
proof (induction ips)
  case Nil
  then show ?case by simp
next
  case (Cons ip ips)
  show ?case
  proof (cases "success (process_image G (snd ip) text_extraction)")
    case True
    from success_has_data [OF True] obtain d where
      "data (process_image G (snd ip) text_extraction) = Some d" by blast
    with True Cons show ?thesis by simp
  next
    case False
    from failure_has_no_data [OF False] False Cons show ?thesis by simp
  qed
qed

lemma process_pages_results:
  assumes "\<forall>p \<in> set image_paths. \<forall>d td.
             data (process_image (llm_client D) p text_extraction) = Some d \<longrightarrow>
             (\<exists>td'. aggregate_text d td = Inr td')"
  shows "\<exists>r fx. process_pages D kind doc_name folder image_paths = Inr (r, fx) \<and>
           result_success r \<and> document_type r = kind \<and>
           pages_processed r = length image_paths \<and>
           results r =
             concat (map (\<lambda>ip.
                 case data (process_image (llm_client D) (snd ip) text_extraction) of
                   None \<Rightarrow> []
                 | Some d \<Rightarrow>
                     [\<lparr>page = fst ip + 1, page_text_data = d,
                       table_detected =
                         table_indicator
                           (process_image (llm_client D) (snd ip) document_analysis)\<rparr>])
               (enumerate 0 image_paths)) \<and>
           gateway_calls fx =
             concat (map (\<lambda>p. snd (page_calls (llm_client D) p [])) image_paths)"
proof -
  have "\<forall>ip \<in> set (enumerate 0 image_paths). \<forall>d td.
          data (process_image (llm_client D) (snd ip) text_extraction) = Some d \<longrightarrow>
             (\<exists>td'. aggregate_text d td = Inr td')"
    using assms by (auto simp: enumerate_eq_zip dest: set_zip_rightD)
  from page_loop_pages [OF this, of "[]" "[]" "\<lparr>headers = [], content = []\<rparr>" "[]"]
  obtain tds' td' where
    l: "page_loop (llm_client D) (enumerate 0 image_paths) initial_state [] =
          Inr ((concat (map (\<lambda>ip.
                 case data (process_image (llm_client D) (snd ip) text_extraction) of
                   None \<Rightarrow> []
                 | Some d \<Rightarrow>
                     [\<lparr>page = fst ip + 1, page_text_data = d,
                       table_detected =
                         table_indicator
                           (process_image (llm_client D) (snd ip) document_analysis)\<rparr>])
               (enumerate 0 image_paths)), tds', td'),
               concat (map (\<lambda>ip. snd (page_calls (llm_client D) (snd ip) []))
                         (enumerate 0 image_paths)))"
    by (auto simp: initial_state_def)
  have m: "map (\<lambda>ip. snd (page_calls (llm_client D) (snd ip) [])) (enumerate 0 image_paths) =
           map (\<lambda>p. snd (page_calls (llm_client D) p [])) image_paths"
    by (rule map_snd_enumerate)
  show ?thesis
    by (simp add: process_pages_def l bind_exn_def Let_def result_success_def m)
qed

text \<open>
  Claim C1, as amended. For a multi-page document, PDF or DOCX, that rasterizes to at
  least one page and whose successful text payloads can all be folded: the run returns
  a success result that counts every page; the gateway calls of every page are made, in
  page order, whatever failed before; and the per-page results list has an entry exactly
  for the pages whose text extraction succeeded, in page order, numbered from one. The
  entry holds the payload of the page's text extraction and the outcome of the table
  test on its classification; it has no success flag. A page whose text extraction
  failed has no entry.
\<close>

theorem paged_document_results:
  assumes "image_paths =
             pdf_to_images (pdf_processor D) file_path
               (SCREENSHOT_FOLDER D @ [path_stem file_path]) \<and>
           run = process_pdf D file_path \<or>
           image_paths =
             docx_to_images (pdf_processor D) file_path
               (SCREENSHOT_FOLDER D @ [path_stem file_path]) \<and>
           run = process_docx D file_path"
    and "image_paths \<noteq> []"
    and "\<forall>p \<in> set image_paths. \<forall>d td.
           data (process_image (llm_client D) p text_extraction) = Some d \<longrightarrow>
           (\<exists>td'. aggregate_text d td = Inr td')"
  shows "\<exists>r fx. run = Inr (r, fx) \<and>
           result_success r \<and> pages_processed r = length image_paths \<and>
           results r =
             concat (map (\<lambda>ip.
                 case data (process_image (llm_client D) (snd ip) text_extraction) of
                   None \<Rightarrow> []
                 | Some d \<Rightarrow>
                     [\<lparr>page = fst ip + 1, page_text_data = d,
                       table_detected =
                         table_indicator
                           (process_image (llm_client D) (snd ip) document_analysis)\<rparr>])
               (enumerate 0 image_paths)) \<and>
           map page (results r) =
             map (\<lambda>ip. fst ip + 1)
               (filter (\<lambda>ip. success (process_image (llm_client D) (snd ip) text_extraction))
                  (enumerate 0 image_paths)) \<and>
           gateway_calls fx =
             concat (map (\<lambda>p. snd (page_calls (llm_client D) p [])) image_paths)"
proof -
  from assms(1,2) obtain kind where
    run: "run = process_pages D kind (path_stem file_path)
            (SCREENSHOT_FOLDER D @ [path_stem file_path]) image_paths"
    by (auto simp: process_pdf_def process_docx_def Let_def)
  from process_pages_results [OF assms(3), of kind "path_stem file_path"
      "SCREENSHOT_FOLDER D @ [path_stem file_path]"]
  obtain r fx where r: "run = Inr (r, fx)" "result_success r"
    "pages_processed r = length image_paths"
    "results r =
             concat (map (\<lambda>ip.
                 case data (process_image (llm_client D) (snd ip) text_extraction) of
                   None \<Rightarrow> []
                 | Some d \<Rightarrow>
                     [\<lparr>page = fst ip + 1, page_text_data = d,
                       table_detected =
                         table_indicator
                           (process_image (llm_client D) (snd ip) document_analysis)\<rparr>])
               (enumerate 0 image_paths))"
    "gateway_calls fx =
             concat (map (\<lambda>p. snd (page_calls (llm_client D) p [])) image_paths)"
    unfolding run by blast
  have "map page (results r) =
             map (\<lambda>ip. fst ip + 1)
               (filter (\<lambda>ip. success (process_image (llm_client D) (snd ip) text_extraction))
                  (enumerate 0 image_paths))"
    unfolding r(4) by (rule entry_pages)
  with r show ?thesis by blast
qed

lemma demo_doc_pages:
  "pdf_to_images (pdf_processor demo_processor) [''uploads'', ''doc.pdf'']
     (SCREENSHOT_FOLDER demo_processor @ [path_stem [''uploads'', ''doc.pdf'']]) =
   [[''/'', ''srv'', ''ocr'', ''data'', ''screenshots'', ''doc'', ''page_001.png''],
    [''/'', ''srv'', ''ocr'', ''data'', ''screenshots'', ''doc'', ''page_002.png'']]"
  by code_simp

lemma demo_notes_pages:
  "docx_to_images (pdf_processor demo_processor) [''uploads'', ''notes.docx'']
     (SCREENSHOT_FOLDER demo_processor @ [path_stem [''uploads'', ''notes.docx'']]) =
   [[''/'', ''srv'', ''ocr'', ''data'', ''screenshots'', ''notes'', ''page_001.png''],
    [''/'', ''srv'', ''ocr'', ''data'', ''screenshots'', ''notes'', ''page_002.png'']]"
  by code_simp

lemma demo_text_first_page:
  "path_name p = ''page_001.png'' \<Longrightarrow>
   process_image demo_gateway p text_extraction =
     \<lparr>success = False, data = None, raw_response = None, error = Some ''Connection refused''\<rparr>"
  by (simp add: process_image_def demo_gateway_def demo_backend_def)

lemma demo_text_second_page:
  "path_name p = ''page_002.png'' \<Longrightarrow>
   process_image demo_gateway p text_extraction =
     \<lparr>success = True, data = Some (JObject [(''text'', JString ''hello'')]),
      raw_response = Some ''hello'', error = None\<rparr>"
  by (simp add: process_image_def demo_gateway_def demo_backend_def Let_def)

lemma demo_table_indicator:
  "table_indicator (process_image demo_gateway p document_analysis)"
  unfolding demo_classification table_indicator_def by code_simp

text \<open>
  The claim as first stated fails: in the two-page document \<^verbatim>\<open>uploads/doc.pdf\<close> the
  text extraction of page 1 fails, all six calls are made, and the results list holds
  page 2 only.
\<close>

theorem failed_text_page_omitted_counterexample:
  "\<not> success (process_image demo_gateway
                [''/'', ''srv'', ''ocr'', ''data'', ''screenshots'', ''doc'', ''page_001.png'']
                text_extraction) \<and>
   process_document demo_processor [''uploads'', ''doc.pdf''] =
     Inr (Paged ''pdf'' 2 ''/srv/ocr/data/outputs/doc.json''
            (Some ''/srv/ocr/data/outputs/doc.xlsx'') ''/srv/ocr/data/screenshots/doc''
            [\<lparr>page = 2, page_text_data = JObject [(''text'', JString ''hello'')],
              table_detected = True\<rparr>],
          \<lparr>gateway_calls =
             [([''/'', ''srv'', ''ocr'', ''data'', ''screenshots'', ''doc'', ''page_001.png''],
               document_analysis),
              ([''/'', ''srv'', ''ocr'', ''data'', ''screenshots'', ''doc'', ''page_001.png''],
               text_extraction),
              ([''/'', ''srv'', ''ocr'', ''data'', ''screenshots'', ''doc'', ''page_001.png''],
               table_extraction),
              ([''/'', ''srv'', ''ocr'', ''data'', ''screenshots'', ''doc'', ''page_002.png''],
               document_analysis),
              ([''/'', ''srv'', ''ocr'', ''data'', ''screenshots'', ''doc'', ''page_002.png''],
               text_extraction),
              ([''/'', ''srv'', ''ocr'', ''data'', ''screenshots'', ''doc'', ''page_002.png''],
               table_extraction)],
           json_written =
             Some ([''/'', ''srv'', ''ocr'', ''data'', ''outputs'', ''doc.json''],
                   JObject [(''headers'', JArray []), (''content'', JArray [JString ''hello''])]),
           workbook =
             Some ([''/'', ''srv'', ''ocr'', ''data'', ''outputs'', ''doc.xlsx''],
                   [(''Page 1'', \<lparr>columns = [], cells = []\<rparr>),
                    (''Page 2'', \<lparr>columns = [], cells = []\<rparr>)])\<rparr>)"
  by code_simp

theorem paged_document_results_witness:
  "pdf_to_images (pdf_processor demo_processor) [''uploads'', ''doc.pdf'']
     (SCREENSHOT_FOLDER demo_processor @ [path_stem [''uploads'', ''doc.pdf'']]) =
   [[''/'', ''srv'', ''ocr'', ''data'', ''screenshots'', ''doc'', ''page_001.png''],
    [''/'', ''srv'', ''ocr'', ''data'', ''screenshots'', ''doc'', ''page_002.png'']] \<and>
   data (process_image (llm_client demo_processor)
           [''/'', ''srv'', ''ocr'', ''data'', ''screenshots'', ''doc'', ''page_001.png'']
           text_extraction) = None \<and>
   data (process_image (llm_client demo_processor)
           [''/'', ''srv'', ''ocr'', ''data'', ''screenshots'', ''doc'', ''page_002.png'']
           text_extraction) = Some (JObject [(''text'', JString ''hello'')]) \<and>
   (\<exists>r fx. process_pdf demo_processor [''uploads'', ''doc.pdf''] = Inr (r, fx) \<and>
      result_success r \<and> pages_processed r = 2 \<and>
      results r = [\<lparr>page = 2, page_text_data = JObject [(''text'', JString ''hello'')],
                    table_detected = True\<rparr>] \<and>
      length (gateway_calls fx) = 6) \<and>
   docx_to_images (pdf_processor demo_processor) [''uploads'', ''notes.docx'']
     (SCREENSHOT_FOLDER demo_processor @ [path_stem [''uploads'', ''notes.docx'']]) =
   [[''/'', ''srv'', ''ocr'', ''data'', ''screenshots'', ''notes'', ''page_001.png''],
    [''/'', ''srv'', ''ocr'', ''data'', ''screenshots'', ''notes'', ''page_002.png'']] \<and>
   (\<exists>r fx. process_docx demo_processor [''uploads'', ''notes.docx''] = Inr (r, fx) \<and>
      result_success r \<and> pages_processed r = 2 \<and>
      results r = [\<lparr>page = 2, page_text_data = JObject [(''text'', JString ''hello'')],
                    table_detected = True\<rparr>] \<and>
      length (gateway_calls fx) = 6)"
proof -
  let ?d1 = "[''/'', ''srv'', ''ocr'', ''data'', ''screenshots'', ''doc'', ''page_001.png'']"
  let ?d2 = "[''/'', ''srv'', ''ocr'', ''data'', ''screenshots'', ''doc'', ''page_002.png'']"
  let ?n1 = "[''/'', ''srv'', ''ocr'', ''data'', ''screenshots'', ''notes'', ''page_001.png'']"
  let ?n2 = "[''/'', ''srv'', ''ocr'', ''data'', ''screenshots'', ''notes'', ''page_002.png'']"
  have g: "llm_client demo_processor = demo_gateway" by (simp add: demo_processor_def)
  have t: "process_image demo_gateway ?d1 text_extraction =
       \<lparr>success = False, data = None, raw_response = None, error = Some ''Connection refused''\<rparr>"
    "process_image demo_gateway ?n1 text_extraction =
       \<lparr>success = False, data = None, raw_response = None, error = Some ''Connection refused''\<rparr>"
    "process_image demo_gateway ?d2 text_extraction =
       \<lparr>success = True, data = Some (JObject [(''text'', JString ''hello'')]),
        raw_response = Some ''hello'', error = None\<rparr>"
    "process_image demo_gateway ?n2 text_extraction =
       \<lparr>success = True, data = Some (JObject [(''text'', JString ''hello'')]),
        raw_response = Some ''hello'', error = None\<rparr>"
    by (simp_all add: demo_text_first_page demo_text_second_page path_name_def)
  have safe_d: "\<forall>p \<in> set [?d1, ?d2]. \<forall>d td.
      data (process_image (llm_client demo_processor) p text_extraction) = Some d \<longrightarrow>
      (\<exists>td'. aggregate_text d td = Inr td')"
    by (simp add: g t aggregate_text_def bind_exn_def)
  have safe_n: "\<forall>p \<in> set [?n1, ?n2]. \<forall>d td.
      data (process_image (llm_client demo_processor) p text_extraction) = Some d \<longrightarrow>
      (\<exists>td'. aggregate_text d td = Inr td')"
    by (simp add: g t aggregate_text_def bind_exn_def)
  have calls: "snd (page_calls demo_gateway p []) =
      [(p, document_analysis), (p, text_extraction), (p, table_extraction)]" for p
    by (simp add: page_calls_eq demo_table_indicator)
  from paged_document_results [of "[?d1, ?d2]" demo_processor "[''uploads'', ''doc.pdf'']"
      "process_pdf demo_processor [''uploads'', ''doc.pdf'']", OF _ _ safe_d]
  have 1: "\<exists>r fx. process_pdf demo_processor [''uploads'', ''doc.pdf''] = Inr (r, fx) \<and>
      result_success r \<and> pages_processed r = 2 \<and>
      results r = [\<lparr>page = 2, page_text_data = JObject [(''text'', JString ''hello'')],
                    table_detected = True\<rparr>] \<and>
      length (gateway_calls fx) = 6"
    by (simp add: demo_doc_pages g enumerate_eq_zip upt_rec t calls demo_table_indicator) auto
  from paged_document_results [of "[?n1, ?n2]" demo_processor "[''uploads'', ''notes.docx'']"
      "process_docx demo_processor [''uploads'', ''notes.docx'']", OF _ _ safe_n]
  have 2: "\<exists>r fx. process_docx demo_processor [''uploads'', ''notes.docx''] = Inr (r, fx) \<and>
      result_success r \<and> pages_processed r = 2 \<and>
      results r = [\<lparr>page = 2, page_text_data = JObject [(''text'', JString ''hello'')],
                    table_detected = True\<rparr>] \<and>
      length (gateway_calls fx) = 6"
    by (simp add: demo_notes_pages g enumerate_eq_zip upt_rec t calls demo_table_indicator) auto
  from 1 2 show ?thesis
    by (simp add: demo_doc_pages demo_notes_pages g t)
qed

lemma image_document_text_failure:
  assumes "get_file_type file_path \<in> set [''jpg'', ''jpeg'', ''png'', ''tiff'']"
    and "\<not> success (process_image (llm_client D) (preprocess_image D file_path) text_extraction)"
  shows "process_document D file_path = Inl (KeyError ''data'')"
proof -
  let ?p = "preprocess_image D file_path" and ?G = "llm_client D"
  have t: "subscript_data (process_image ?G ?p text_extraction) = Inl (KeyError ''data'')"
    using failure_has_no_data [OF assms(2)] by (simp add: subscript_data_def)
  have tab: "success (process_image ?G ?p table_extraction) \<Longrightarrow>
     \<exists>d. subscript_data (process_image ?G ?p table_extraction) = Inr d"
    using success_has_data [of ?G ?p table_extraction] by (auto simp: subscript_data_def)
  have "process_image_document D file_path = Inl (KeyError ''data'')"
    using t tab
    by (auto simp: process_image_document_def analyze_document_type_def extract_text_def
        extract_table_def Let_def bind_exn_def)
  moreover have "process_document D file_path = process_image_document D file_path"
    using assms(1) by (auto simp: process_document_def ALLOWED_EXTENSIONS_def Let_def)
  ultimately show ?thesis by simp
qed

lemma image_document_json:
  assumes "process_document D file_path = Inr (r, fx)"
    and "get_file_type file_path \<in> set [''jpg'', ''jpeg'', ''png'', ''tiff'']"
  shows "\<exists>out. json_written fx = Some (out, the (data (process_image (llm_client D)
            (preprocess_image D file_path) text_extraction)))"
proof -
  have "process_document D file_path = process_image_document D file_path"
    using assms(2) by (auto simp: process_document_def ALLOWED_EXTENSIONS_def Let_def)
  with assms(1) have "process_image_document D file_path = Inr (r, fx)" by simp
  then show ?thesis
    by (auto simp: process_image_document_def analyze_document_type_def extract_text_def
        extract_table_def Let_def bind_exn_def subscript_data_def
        split: if_splits sum.splits option.splits)
qed

lemma paged_json_has_sequences:
  assumes "process_pages D kind doc_name folder image_paths = Inr (r, fx)"
  shows "\<exists>out hs cs. json_written fx =
           Some (out, JObject [(''headers'', JArray hs), (''content'', JArray cs)])"
  using assms
  by (auto simp: process_pages_def bind_exn_def Let_def text_data_json_def
      split: sum.splits prod.splits)

section \<open>Pages of a DOCX document\<close>

text \<open>
  Paragraphs are chunked ten to a page: when every page image can be saved, a document
  with \<open>n\<close> paragraphs gives \<open>(n + 9) div 10\<close> page images.
\<close>

lemma save_pages_length:
  assumes "\<forall>img p. image_save R img p = None"
  shows "\<exists>ps. save_pages R folder xs = Inr ps \<and> length ps = length xs"
proof (induction xs)
  case Nil
  then show ?case by simp
next
  case (Cons x xs)
  obtain i img where x: "x = (i, img)" by (cases x)
  from Cons obtain ps where "save_pages R folder xs = Inr ps" "length ps = length xs" by blast
  then show ?case using assms by (simp add: x Let_def)
qed

lemma docx_page_count:
  assumes "docx_Document R docx_path = Inr paragraphs"
    and "\<forall>img p. image_save R img p = None"
  shows "length (docx_to_images R docx_path folder) = (length paragraphs + 9) div 10"
proof -
  let ?chunks = "map (\<lambda>i. py_slice paragraphs (int i) (int i + 10))
                   (py_range 0 (length paragraphs) 10)"
  from save_pages_length [OF assms(2), of folder "enumerate 0 (map (\<lambda>chunk. Image_new R) ?chunks)"]
  obtain ps where "save_pages R folder (enumerate 0 (map (\<lambda>chunk. Image_new R) ?chunks)) = Inr ps"
    "length ps = length (enumerate 0 (map (\<lambda>chunk. Image_new R) ?chunks))" by blast
  then show ?thesis
    using assms(1) by (simp add: docx_to_images_def Let_def py_range_def)
qed

end
